theory Spec2Isabelle
  imports Complex_Main "HOL-Library.Word"
begin

section \<open>Values shared by all components\<close>

type_synonym byte = "8 word"
type_synonym bytes = "byte list"

text \<open>JSON values, as \<^verbatim>\<open>json.loads\<close> produces them and \<^verbatim>\<open>json.dumps\<close> consumes them.
  A Python dict keeps its keys in insertion order, so an object is an association list.\<close>

datatype json =
    JNull
  | JBool bool
  | JInt int
  | JNum real
  | JStr string
  | JList "json list"
  | JObj "(string \<times> json) list"

text \<open>The exceptions the code raises, with the payload that tells them apart.\<close>

datatype error =
    KeyError string
  | ValueError string
  | TypeError string
  | IndexError
  | ConnectionError string
  | Base64Error
  | OtherError string

subsection \<open>Python sequences\<close>

text \<open>Python indexing: a negative index counts from the end; out of range raises.\<close>

definition py_index :: "nat \<Rightarrow> int \<Rightarrow> nat option" where
  "py_index n i =
     (let j = (if i < 0 then int n + i else i)
      in if 0 \<le> j \<and> j < int n then Some (nat j) else None)"

text \<open>Python slicing \<^verbatim>\<open>xs[lo:hi]\<close> and \<^verbatim>\<open>xs[:hi]\<close>: negative bounds count from the end,
  every bound is clipped to the sequence, an empty range is the empty sequence.\<close>

definition py_bound :: "nat \<Rightarrow> int \<Rightarrow> nat" where
  "py_bound n i = (if i < 0 then nat (max 0 (int n + i)) else min (nat i) n)"

definition py_slice :: "'a list \<Rightarrow> int \<Rightarrow> int \<Rightarrow> 'a list" where
  "py_slice xs lo hi = drop (py_bound (length xs) lo) (take (py_bound (length xs) hi) xs)"

definition py_slice_to :: "'a list \<Rightarrow> int \<Rightarrow> 'a list" where
  "py_slice_to xs hi = take (py_bound (length xs) hi) xs"

text \<open>\<^verbatim>\<open>int(x)\<close> on a float truncates towards zero.\<close>

definition py_int :: "real \<Rightarrow> int" where
  "py_int r = (if 0 \<le> r then \<lfloor>r\<rfloor> else \<lceil>r\<rceil>)"

section \<open>The conversation engine (conversation.py)\<close>

subsection \<open>Data\<close>

text \<open>Items, content parts and events are Python dicts. Each key the engine reads or writes
  is a field that is \<open>None\<close> when the key is absent, so that every \<^verbatim>\<open>d[k]\<close> on a missing key
  is a \<open>KeyError\<close> branch of the model. Keys the engine never names are kept in \<open>i_extra\<close>:
  they matter only for the truth value of the dict.\<close>

record content_part =
  c_type :: "string option"
  c_text :: "string option"
  c_audio :: "string option"
  c_transcript :: "string option"

definition empty_part :: content_part where
  "empty_part = \<lparr>c_type = None, c_text = None, c_audio = None, c_transcript = None\<rparr>"

record tool =
  t_type :: "string option"
  t_name :: "string option"
  t_call_id :: "string option"
  t_arguments :: "string option"

record formatted =
  f_audio :: "bytes option"
  f_text :: "string option"
  f_transcript :: "string option"
  f_tool :: "tool option"
  f_output :: "string option"

record item =
  i_id :: "string option"
  i_type :: "string option"
  i_role :: "string option"
  i_status :: "string option"
  i_content :: "content_part list option"
  i_formatted :: "formatted option"
  i_arguments :: "string option"
  i_name :: "string option"
  i_call_id :: "string option"
  i_output :: "string option"
  i_extra :: "(string \<times> json) list"

record response =
  r_id :: "string option"
  r_output :: "string list option"
  r_extra :: "(string \<times> json) list"

record speech =
  sp_audio_start_ms :: int
  sp_audio_end_ms :: "int option"
  sp_audio :: "bytes option"

record event =
  e_event_id :: "string option"
  e_type :: "string option"
  e_item :: "item option"
  e_item_id :: "string option"
  e_content_index :: "int option"
  e_delta :: "string option"
  e_transcript :: "string option"
  e_audio_start_ms :: "int option"
  e_audio_end_ms :: "int option"
  e_response :: "response option"
  e_response_id :: "string option"
  e_part :: "content_part option"

text \<open>\<^verbatim>\<open>ItemContentDeltaType\<close>: the dict a delta processor returns has exactly one key.\<close>

datatype delta =
    DText string
  | DAudio bytes
  | DArguments string
  | DTranscript string

text \<open>The engine's state. \<^verbatim>\<open>item_lookup\<close> and \<^verbatim>\<open>items\<close> hold references to the same dict
  objects, and the processors mutate an item through either reference: items live in a store
  (\<open>heap\<close>) and both containers hold addresses. \<open>next_addr\<close> is the next free address.
  Responses are shared between \<^verbatim>\<open>response_lookup\<close> and \<^verbatim>\<open>responses\<close> in the same way.\<close>

record conversation =
  heap :: "nat \<Rightarrow> item"
  next_addr :: nat
  item_lookup :: "string \<rightharpoonup> nat"
  items :: "nat list"
  rheap :: "nat \<Rightarrow> response"
  rnext :: nat
  response_lookup :: "string \<rightharpoonup> nat"
  responses :: "nat list"
  queued_speech_items :: "string \<rightharpoonup> speech"
  queued_transcript_items :: "string \<rightharpoonup> string option"
  queued_input_audio :: "bytes option"

text \<open>What a processor returns: the item (a reference, or \<^verbatim>\<open>None\<close>) and the delta.\<close>

type_synonym ret = "nat option \<times> delta option"

text \<open>A processor mutates the state up to the point where it raises, so the state is returned
  in both outcomes.\<close>

type_synonym 'a outcome = "conversation \<times> (error + 'a)"

definition default_frequency :: int where
  "default_frequency = 24000"

definition empty_item :: item where
  "empty_item = \<lparr>i_id = None, i_type = None, i_role = None, i_status = None, i_content = None,
     i_formatted = None, i_arguments = None, i_name = None, i_call_id = None, i_output = None,
     i_extra = []\<rparr>"

definition empty_response :: response where
  "empty_response = \<lparr>r_id = None, r_output = None, r_extra = []\<rparr>"

definition init_formatted :: formatted where
  "init_formatted = \<lparr>f_audio = Some [], f_text = Some [], f_transcript = Some [],
     f_tool = None, f_output = None\<rparr>"

definition no_formatted :: formatted where
  "no_formatted = \<lparr>f_audio = None, f_text = None, f_transcript = None,
     f_tool = None, f_output = None\<rparr>"

text \<open>The truth value of a dict: false exactly when it has no key.\<close>

definition item_truthy :: "item \<Rightarrow> bool" where
  "item_truthy i \<longleftrightarrow> i \<noteq> empty_item"

definition response_truthy :: "response \<Rightarrow> bool" where
  "response_truthy r \<longleftrightarrow> r \<noteq> empty_response"

definition clear :: "conversation \<Rightarrow> conversation" where
  "clear s = s\<lparr>item_lookup := Map.empty, items := [], response_lookup := Map.empty,
     responses := [], queued_speech_items := Map.empty, queued_transcript_items := Map.empty,
     queued_input_audio := None\<rparr>"

text \<open>\<^verbatim>\<open>__init__\<close>: a new engine, nothing allocated yet.\<close>

definition new_conversation :: conversation where
  "new_conversation = clear \<lparr>heap = (\<lambda>_. empty_item), next_addr = 0, item_lookup = Map.empty,
     items = [], rheap = (\<lambda>_. empty_response), rnext = 0, response_lookup = Map.empty,
     responses = [], queued_speech_items = Map.empty, queued_transcript_items = Map.empty,
     queued_input_audio = None\<rparr>"

definition queue_input_audio :: "conversation \<Rightarrow> bytes \<Rightarrow> conversation" where
  "queue_input_audio s input_audio = s\<lparr>queued_input_audio := Some input_audio\<rparr>"

definition get_item :: "conversation \<Rightarrow> string \<Rightarrow> nat option" where
  "get_item s k = item_lookup s k"

definition upd_item :: "nat \<Rightarrow> (item \<Rightarrow> item) \<Rightarrow> conversation \<Rightarrow> conversation" where
  "upd_item a f s = s\<lparr>heap := (heap s)(a := f (heap s a))\<rparr>"

definition upd_formatted :: "nat \<Rightarrow> (formatted \<Rightarrow> formatted) \<Rightarrow> conversation \<Rightarrow> conversation" where
  "upd_formatted a g s = upd_item a (\<lambda>i. i\<lparr>i_formatted := map_option g (i_formatted i)\<rparr>) s"

definition placeholder :: "string \<Rightarrow> item" where
  "placeholder k = empty_item\<lparr>i_id := Some k, i_formatted := Some init_formatted,
     i_content := Some [], i_status := Some ''in_progress''\<rparr>"

definition link_item :: "string \<Rightarrow> nat \<Rightarrow> conversation \<Rightarrow> conversation" where
  "link_item k a s = s\<lparr>item_lookup := (item_lookup s)(k \<mapsto> a), items := items s @ [a]\<rparr>"

definition alloc_item :: "item \<Rightarrow> conversation \<Rightarrow> conversation \<times> nat" where
  "alloc_item i s = (s\<lparr>heap := (heap s)(next_addr s := i), next_addr := Suc (next_addr s)\<rparr>,
     next_addr s)"

text \<open>\<^verbatim>\<open>_ensure_item_exists\<close>: the tracked item, or a placeholder that is tracked from now on.
  \<^verbatim>\<open>if not item\<close> is also true of a tracked dict with no key.\<close>

definition ensure_item_exists :: "conversation \<Rightarrow> string \<Rightarrow> conversation \<times> nat" where
  "ensure_item_exists s k =
     (case item_lookup s k of
        Some a \<Rightarrow>
          if item_truthy (heap s a) then (s, a)
          else (case alloc_item (placeholder k) s of (s', b) \<Rightarrow> (link_item k b s', b))
      | None \<Rightarrow> (case alloc_item (placeholder k) s of (s', b) \<Rightarrow> (link_item k b s', b)))"

subsection \<open>Sequencing\<close>

text \<open>Statements that may raise, run in order: the first exception ends the run and keeps
  the mutations made so far.\<close>

fun chain :: "(conversation \<Rightarrow> conversation \<times> error option) list \<Rightarrow> conversation \<Rightarrow>
    conversation \<times> error option" where
  "chain [] s = (s, None)"
| "chain (f # fs) s = (case f s of (s', None) \<Rightarrow> chain fs s' | (s', Some e) \<Rightarrow> (s', Some e))"

definition returning :: "ret \<Rightarrow> conversation \<times> error option \<Rightarrow> ret outcome" where
  "returning r m = (case m of (s, None) \<Rightarrow> (s, Inr r) | (s, Some e) \<Rightarrow> (s, Inl e))"

definition ms_to_index :: "int \<Rightarrow> int" where
  \<comment> \<open>\<^verbatim>\<open>int((ms * self.default_frequency) / 1000)\<close>; the quotient is the integer \<open>24 * ms\<close>,
      which a double holds exactly while it is below \<open>2 ^ 53\<close>\<close>
  "ms_to_index ms = py_int (real_of_int (ms * default_frequency) / 1000)"

subsection \<open>conversation.item.created\<close>

definition created_link :: "string \<Rightarrow> nat \<Rightarrow> conversation \<Rightarrow> conversation \<times> error option" where
  "created_link k a s = ((if item_lookup s k = None then link_item k a s else s), None)"

definition created_init_formatted :: "nat \<Rightarrow> conversation \<Rightarrow> conversation \<times> error option" where
  "created_init_formatted a s = (upd_item a (\<lambda>i. i\<lparr>i_formatted := Some init_formatted\<rparr>) s, None)"

definition created_speech :: "string \<Rightarrow> nat \<Rightarrow> conversation \<Rightarrow> conversation \<times> error option" where
  "created_speech k a s =
     (case queued_speech_items s k of
        None \<Rightarrow> (s, None)
      | Some sp \<Rightarrow>
          (case sp_audio sp of
             None \<Rightarrow> (s, Some (KeyError ''audio''))
           | Some au \<Rightarrow>
               ((upd_formatted a (\<lambda>f. f\<lparr>f_audio := Some au\<rparr>) s)
                  \<lparr>queued_speech_items := (queued_speech_items s)(k := None)\<rparr>, None)))"

text \<open>The list comprehension reads \<^verbatim>\<open>c["type"]\<close> of every part before any text is appended.\<close>

fun text_content :: "content_part list \<Rightarrow> error + content_part list" where
  "text_content [] = Inr []"
| "text_content (c # cs) =
     (case c_type c of
        None \<Rightarrow> Inl (KeyError ''type'')
      | Some t \<Rightarrow>
          (case text_content cs of
             Inl e \<Rightarrow> Inl e
           | Inr r \<Rightarrow> Inr (if t = ''text'' \<or> t = ''input_text'' then c # r else r)))"

fun append_texts :: "nat \<Rightarrow> content_part list \<Rightarrow> conversation \<Rightarrow> conversation \<times> error option" where
  "append_texts a [] s = (s, None)"
| "append_texts a (c # cs) s =
     (case c_text c of
        None \<Rightarrow> (s, Some (KeyError ''text''))
      | Some t \<Rightarrow>
          append_texts a cs
            (upd_formatted a (\<lambda>f. f\<lparr>f_text := map_option (\<lambda>x. x @ t) (f_text f)\<rparr>) s))"

definition created_text :: "nat \<Rightarrow> conversation \<Rightarrow> conversation \<times> error option" where
  "created_text a s =
     (case i_content (heap s a) of
        None \<Rightarrow> (s, None)
      | Some cs \<Rightarrow>
          (case text_content cs of
             Inl e \<Rightarrow> (s, Some e)
           | Inr tc \<Rightarrow> append_texts a tc s))"

definition created_transcript :: "string \<Rightarrow> nat \<Rightarrow> conversation \<Rightarrow> conversation \<times> error option" where
  "created_transcript k a s =
     (case queued_transcript_items s k of
        None \<Rightarrow> (s, None)
      | Some q \<Rightarrow>
          (case q of
             None \<Rightarrow> (s, Some (KeyError ''transcript''))
           | Some t \<Rightarrow>
               ((upd_formatted a (\<lambda>f. f\<lparr>f_transcript := Some t\<rparr>) s)
                  \<lparr>queued_transcript_items := (queued_transcript_items s)(k := None)\<rparr>, None)))"

definition created_status :: "nat \<Rightarrow> conversation \<Rightarrow> conversation \<times> error option" where
  "created_status a s =
     (case i_type (heap s a) of
        None \<Rightarrow> (s, Some (KeyError ''type''))
      | Some ty \<Rightarrow>
          if ty = ''message'' then
            (case i_role (heap s a) of
               None \<Rightarrow> (s, Some (KeyError ''role''))
             | Some r \<Rightarrow>
                 if r = ''user'' then
                   (let s1 = upd_item a (\<lambda>i. i\<lparr>i_status := Some ''completed''\<rparr>) s
                    in case queued_input_audio s1 of
                         None \<Rightarrow> (s1, None)
                       | Some q \<Rightarrow>
                           if q = [] then (s1, None)
                           else ((upd_formatted a (\<lambda>f. f\<lparr>f_audio := Some q\<rparr>) s1)
                                   \<lparr>queued_input_audio := None\<rparr>, None))
                 else (upd_item a (\<lambda>i. i\<lparr>i_status := Some ''in_progress''\<rparr>) s, None))
          else if ty = ''function_call'' then
            (case i_name (heap s a) of
               None \<Rightarrow> (s, Some (KeyError ''name''))
             | Some n \<Rightarrow>
                 (case i_call_id (heap s a) of
                    None \<Rightarrow> (s, Some (KeyError ''call_id''))
                  | Some c \<Rightarrow>
                      (upd_item a (\<lambda>i. i\<lparr>i_status := Some ''in_progress''\<rparr>)
                         (upd_formatted a
                            (\<lambda>f. f\<lparr>f_tool := Some \<lparr>t_type = Some ''function'', t_name = Some n,
                               t_call_id = Some c, t_arguments = Some []\<rparr>\<rparr>) s), None)))
          else if ty = ''function_call_output'' then
            (let s1 = upd_item a (\<lambda>i. i\<lparr>i_status := Some ''completed''\<rparr>) s
             in case i_output (heap s1 a) of
                  None \<Rightarrow> (s1, Some (KeyError ''output''))
                | Some out \<Rightarrow> (upd_formatted a (\<lambda>f. f\<lparr>f_output := Some out\<rparr>) s1, None))
          else (s, None))"

text \<open>\<^verbatim>\<open>new_item = item.copy()\<close> is a new dict in every call; it is tracked only when its id is
  not yet a key of \<^verbatim>\<open>item_lookup\<close>, and every later statement writes to the new dict.\<close>

definition conversation_item_created :: "conversation \<Rightarrow> event \<Rightarrow> ret outcome" where
  "conversation_item_created s ev =
     (case e_item ev of
        None \<Rightarrow> (s, Inl (KeyError ''item''))
      | Some it \<Rightarrow>
          (case alloc_item it s of
             (s0, a) \<Rightarrow>
               (case i_id it of
                  None \<Rightarrow> (s0, Inl (KeyError ''id''))
                | Some k \<Rightarrow>
                    returning (Some a, None)
                      (chain [created_link k a, created_init_formatted a, created_speech k a,
                              created_text a, created_transcript k a, created_status a] s0))))"

subsection \<open>Truncation and deletion\<close>

definition formatted_step :: "nat \<Rightarrow> (formatted \<Rightarrow> error + formatted) \<Rightarrow> conversation \<Rightarrow>
    conversation \<times> error option" where
  \<comment> \<open>a statement on \<^verbatim>\<open>item["formatted"]\<close>, which raises when the item has no such key\<close>
  "formatted_step a g s =
     (case i_formatted (heap s a) of
        None \<Rightarrow> (s, Some (KeyError ''formatted''))
      | Some f \<Rightarrow>
          (case g f of
             Inl e \<Rightarrow> (s, Some e)
           | Inr f' \<Rightarrow> (upd_item a (\<lambda>i. i\<lparr>i_formatted := Some f'\<rparr>) s, None)))"

definition conversation_item_truncated :: "conversation \<Rightarrow> event \<Rightarrow> ret outcome" where
  "conversation_item_truncated s ev =
     (case e_item_id ev of
        None \<Rightarrow> (s, Inl (KeyError ''item_id''))
      | Some k \<Rightarrow>
          (case ensure_item_exists s k of
             (s1, a) \<Rightarrow>
               (case e_audio_end_ms ev of
                  None \<Rightarrow> (s1, Inl (KeyError ''audio_end_ms''))
                | Some audio_end_ms \<Rightarrow>
                    returning (Some a, None)
                      (chain
                         [formatted_step a (\<lambda>f. Inr (f\<lparr>f_transcript := Some []\<rparr>)),
                          formatted_step a
                            (\<lambda>f. case f_audio f of
                                    None \<Rightarrow> Inl (KeyError ''audio'')
                                  | Some au \<Rightarrow>
                                      Inr (f\<lparr>f_audio :=
                                        Some (py_slice_to au (ms_to_index audio_end_ms))\<rparr>))]
                         s1))))"

definition conversation_item_deleted :: "conversation \<Rightarrow> event \<Rightarrow> ret outcome" where
  "conversation_item_deleted s ev =
     (case e_item_id ev of
        None \<Rightarrow> (s, Inl (KeyError ''item_id''))
      | Some item_id \<Rightarrow>
          (case item_lookup s item_id of
             None \<Rightarrow> (s, Inr (None, None))
           | Some a \<Rightarrow>
               if \<not> item_truthy (heap s a) then (s, Inr (None, None))
               else
                 (case i_id (heap s a) of
                    None \<Rightarrow> (s, Inl (KeyError ''id''))
                  | Some k \<Rightarrow>
                      if item_lookup s k = None then (s, Inl (KeyError k))
                      else
                        (let s1 = s\<lparr>item_lookup := (item_lookup s)(k := None)\<rparr>
                         in if list_ex (\<lambda>b. i_id (heap s1 b) = None) (items s1)
                            then (s1, Inl (KeyError ''id''))
                            else (s1\<lparr>items := filter (\<lambda>b. i_id (heap s1 b) \<noteq> Some k) (items s1)\<rparr>,
                                  Inr (Some a, None))))))"

subsection \<open>Index-addressed content\<close>

text \<open>\<^verbatim>\<open>while len(item["content"]) <= content_index: item["content"].append({})\<close>\<close>

function pad_content :: "content_part list \<Rightarrow> int \<Rightarrow> content_part list" where
  "pad_content cs ci =
     (if int (length cs) \<le> ci then pad_content (cs @ [empty_part]) ci else cs)"
  by pat_completeness auto
termination
  by (relation "measure (\<lambda>(cs, ci). nat (ci + 1 - int (length cs)))") auto

declare pad_content.simps [simp del]

definition pad_step :: "nat \<Rightarrow> int \<Rightarrow> conversation \<Rightarrow> conversation \<times> error option" where
  "pad_step a ci s =
     (case i_content (heap s a) of
        None \<Rightarrow> (s, Some (KeyError ''content''))
      | Some cs \<Rightarrow> (upd_item a (\<lambda>i. i\<lparr>i_content := Some (pad_content cs ci)\<rparr>) s, None))"

definition part_step :: "nat \<Rightarrow> int \<Rightarrow> (content_part \<Rightarrow> content_part) \<Rightarrow> conversation \<Rightarrow>
    conversation \<times> error option" where
  \<comment> \<open>a statement on \<^verbatim>\<open>item["content"][content_index]\<close>\<close>
  "part_step a ci g s =
     (case i_content (heap s a) of
        None \<Rightarrow> (s, Some (KeyError ''content''))
      | Some cs \<Rightarrow>
          (case py_index (length cs) ci of
             None \<Rightarrow> (s, Some IndexError)
           | Some j \<Rightarrow> (upd_item a (\<lambda>i. i\<lparr>i_content := Some (cs[j := g (cs ! j)])\<rparr>) s, None)))"

definition or_empty :: "'a list option \<Rightarrow> 'a list" where
  \<comment> \<open>the value of a field after \<^verbatim>\<open>if k not in d: d[k] = ""\<close>\<close>
  "or_empty x = (case x of None \<Rightarrow> [] | Some v \<Rightarrow> v)"

definition conversation_item_input_audio_transcription_completed ::
    "conversation \<Rightarrow> event \<Rightarrow> ret outcome" where
  "conversation_item_input_audio_transcription_completed s ev =
     (case e_item_id ev of
        None \<Rightarrow> (s, Inl (KeyError ''item_id''))
      | Some k \<Rightarrow>
          (case e_content_index ev of
             None \<Rightarrow> (s, Inl (KeyError ''content_index''))
           | Some ci \<Rightarrow>
               (case e_transcript ev of
                  None \<Rightarrow> (s, Inl (KeyError ''transcript''))
                | Some transcript \<Rightarrow>
                    (case ensure_item_exists s k of
                       (s1, a) \<Rightarrow>
                         returning (Some a, Some (DTranscript transcript))
                           (chain
                              [pad_step a ci,
                               part_step a ci (\<lambda>c. c\<lparr>c_transcript := Some transcript\<rparr>),
                               formatted_step a
                                 (\<lambda>f. Inr (f\<lparr>f_transcript :=
                                    Some (if transcript = [] then '' '' else transcript)\<rparr>))]
                              s1)))))"

subsection \<open>Voice activity\<close>

definition input_audio_buffer_speech_started :: "conversation \<Rightarrow> event \<Rightarrow> ret outcome" where
  "input_audio_buffer_speech_started s ev =
     (case e_item_id ev of
        None \<Rightarrow> (s, Inl (KeyError ''item_id''))
      | Some k \<Rightarrow>
          (case e_audio_start_ms ev of
             None \<Rightarrow> (s, Inl (KeyError ''audio_start_ms''))
           | Some audio_start_ms \<Rightarrow>
               (s\<lparr>queued_speech_items := (queued_speech_items s)
                    (k \<mapsto> \<lparr>sp_audio_start_ms = audio_start_ms, sp_audio_end_ms = None,
                           sp_audio = None\<rparr>)\<rparr>,
                Inr (None, None))))"

definition input_audio_buffer_speech_stopped :: "conversation \<Rightarrow> event \<Rightarrow> bytes \<Rightarrow> ret outcome" where
  "input_audio_buffer_speech_stopped s ev input_audio_buffer =
     (case e_item_id ev of
        None \<Rightarrow> (s, Inl (KeyError ''item_id''))
      | Some k \<Rightarrow>
          (case e_audio_end_ms ev of
             None \<Rightarrow> (s, Inl (KeyError ''audio_end_ms''))
           | Some audio_end_ms \<Rightarrow>
               (let speech0 =
                      (case queued_speech_items s k of
                         None \<Rightarrow> \<lparr>sp_audio_start_ms = audio_end_ms, sp_audio_end_ms = None,
                                   sp_audio = None\<rparr>
                       | Some sp \<Rightarrow> sp);
                    speech1 = speech0\<lparr>sp_audio_end_ms := Some audio_end_ms\<rparr>;
                    speech2 =
                      (if input_audio_buffer \<noteq> [] then
                         speech1\<lparr>sp_audio := Some (py_slice input_audio_buffer
                           (ms_to_index (sp_audio_start_ms speech1)) (ms_to_index audio_end_ms))\<rparr>
                       else speech1)
                in (s\<lparr>queued_speech_items := (queued_speech_items s)(k \<mapsto> speech2)\<rparr>,
                    Inr (None, None)))))"

subsection \<open>Responses\<close>

definition response_created :: "conversation \<Rightarrow> event \<Rightarrow> ret outcome" where
  "response_created s ev =
     (case e_response ev of
        None \<Rightarrow> (s, Inl (KeyError ''response''))
      | Some r \<Rightarrow>
          (case r_id r of
             None \<Rightarrow> (s, Inl (KeyError ''id''))
           | Some k \<Rightarrow>
               if response_lookup s k = None then
                 (s\<lparr>rheap := (rheap s)(rnext s := r), rnext := Suc (rnext s),
                     response_lookup := (response_lookup s)(k \<mapsto> rnext s),
                     responses := responses s @ [rnext s]\<rparr>, Inr (None, None))
               else (s, Inr (None, None))))"

definition response_output_item_added :: "conversation \<Rightarrow> event \<Rightarrow> ret outcome" where
  "response_output_item_added s ev =
     (case e_response_id ev of
        None \<Rightarrow> (s, Inl (KeyError ''response_id''))
      | Some response_id \<Rightarrow>
          (case e_item ev of
             None \<Rightarrow> (s, Inl (KeyError ''item''))
           | Some it \<Rightarrow>
               (case response_lookup s response_id of
                  None \<Rightarrow> (s, Inr (None, None))
                | Some ra \<Rightarrow>
                    if \<not> response_truthy (rheap s ra) then (s, Inr (None, None))
                    else
                      (case r_output (rheap s ra) of
                         None \<Rightarrow> (s, Inl (KeyError ''output''))
                       | Some out \<Rightarrow>
                           (case i_id it of
                              None \<Rightarrow> (s, Inl (KeyError ''id''))
                            | Some k \<Rightarrow>
                                (s\<lparr>rheap := (rheap s)
                                     (ra := (rheap s ra)\<lparr>r_output := Some (out @ [k])\<rparr>)\<rparr>,
                                 Inr (None, None)))))))"

text \<open>\<^verbatim>\<open>dict.update\<close>: every key of the payload overwrites the tracked item's, the others stay.\<close>

definition dict_set :: "string \<Rightarrow> 'v \<Rightarrow> (string \<times> 'v) list \<Rightarrow> (string \<times> 'v) list" where
  "dict_set k v d =
     (if k \<in> fst ` set d then map (\<lambda>(k', v'). if k' = k then (k', v) else (k', v')) d
      else d @ [(k, v)])"

definition dict_update :: "(string \<times> 'v) list \<Rightarrow> (string \<times> 'v) list \<Rightarrow> (string \<times> 'v) list" where
  "dict_update d e = fold (\<lambda>(k, v). dict_set k v) e d"

definition or_else :: "'a option \<Rightarrow> 'a option \<Rightarrow> 'a option" where
  "or_else new old = (case new of None \<Rightarrow> old | Some v \<Rightarrow> Some v)"

definition item_update :: "item \<Rightarrow> item \<Rightarrow> item" where
  "item_update old new =
     \<lparr>i_id = or_else (i_id new) (i_id old),
      i_type = or_else (i_type new) (i_type old),
      i_role = or_else (i_role new) (i_role old),
      i_status = or_else (i_status new) (i_status old),
      i_content = or_else (i_content new) (i_content old),
      i_formatted = or_else (i_formatted new) (i_formatted old),
      i_arguments = or_else (i_arguments new) (i_arguments old),
      i_name = or_else (i_name new) (i_name old),
      i_call_id = or_else (i_call_id new) (i_call_id old),
      i_output = or_else (i_output new) (i_output old),
      i_extra = dict_update (i_extra old) (i_extra new)\<rparr>"

definition response_output_item_done :: "conversation \<Rightarrow> event \<Rightarrow> ret outcome" where
  "response_output_item_done s ev =
     (case e_item ev of
        None \<Rightarrow> (s, Inl (KeyError ''item''))
      | Some it \<Rightarrow>
          if \<not> item_truthy it then
            (s, Inl (ValueError ''response.output_item.done: Missing item''))
          else
            (case i_id it of
               None \<Rightarrow> (s, Inl (KeyError ''id''))
             | Some k \<Rightarrow>
                 (case ensure_item_exists s k of
                    (s1, a) \<Rightarrow>
                      (let s2 = upd_item a (\<lambda>old. item_update old it) s1
                       in case i_status it of
                            None \<Rightarrow> (s2, Inl (KeyError ''status''))
                          | Some st \<Rightarrow>
                              (upd_item a (\<lambda>i. i\<lparr>i_status := Some st\<rparr>) s2,
                               Inr (Some a, None))))))"

definition content_append_step :: "nat \<Rightarrow> event \<Rightarrow> conversation \<Rightarrow> conversation \<times> error option" where
  "content_append_step a ev s =
     (case i_content (heap s a) of
        None \<Rightarrow> (s, Some (KeyError ''content''))
      | Some cs \<Rightarrow>
          (case e_part ev of
             None \<Rightarrow> (s, Some (KeyError ''part''))
           | Some p \<Rightarrow> (upd_item a (\<lambda>i. i\<lparr>i_content := Some (cs @ [p])\<rparr>) s, None)))"

definition response_content_part_added :: "conversation \<Rightarrow> event \<Rightarrow> ret outcome" where
  "response_content_part_added s ev =
     (case e_item_id ev of
        None \<Rightarrow> (s, Inl (KeyError ''item_id''))
      | Some k \<Rightarrow>
          (case ensure_item_exists s k of
             (s1, a) \<Rightarrow> returning (Some a, None) (content_append_step a ev s1)))"

subsection \<open>Delta processors\<close>

definition append_formatted_transcript :: "string \<Rightarrow> formatted \<Rightarrow> error + formatted" where
  "append_formatted_transcript d f =
     (case f_transcript f of
        None \<Rightarrow> Inl (KeyError ''transcript'')
      | Some t \<Rightarrow> Inr (f\<lparr>f_transcript := Some (t @ d)\<rparr>))"

definition append_formatted_text :: "string \<Rightarrow> formatted \<Rightarrow> error + formatted" where
  "append_formatted_text d f =
     (case f_text f of
        None \<Rightarrow> Inl (KeyError ''text'')
      | Some t \<Rightarrow> Inr (f\<lparr>f_text := Some (t @ d)\<rparr>))"

definition append_formatted_audio :: "bytes \<Rightarrow> formatted \<Rightarrow> error + formatted" where
  "append_formatted_audio b f =
     (case f_audio f of
        None \<Rightarrow> Inl (KeyError ''audio'')
      | Some au \<Rightarrow> Inr (f\<lparr>f_audio := Some (au @ b)\<rparr>))"

definition response_audio_transcript_delta :: "conversation \<Rightarrow> event \<Rightarrow> ret outcome" where
  "response_audio_transcript_delta s ev =
     (case e_item_id ev of
        None \<Rightarrow> (s, Inl (KeyError ''item_id''))
      | Some k \<Rightarrow>
          (case ensure_item_exists s k of
             (s1, a) \<Rightarrow>
               (case e_content_index ev of
                  None \<Rightarrow> (s1, Inl (KeyError ''content_index''))
                | Some ci \<Rightarrow>
                    (case e_delta ev of
                       None \<Rightarrow> (s1, Inl (KeyError ''delta''))
                     | Some d \<Rightarrow>
                         returning (Some a, Some (DTranscript d))
                           (chain
                              [pad_step a ci,
                               part_step a ci
                                 (\<lambda>c. c\<lparr>c_transcript := Some (or_empty (c_transcript c) @ d)\<rparr>),
                               formatted_step a (append_formatted_transcript d)]
                              s1)))))"

text \<open>\<^verbatim>\<open>RealtimeUtils.base64_to_bytes\<close> is \<^verbatim>\<open>base64.b64decode\<close> of the standard library, which
  is not part of the repository: the decoder \<open>dec\<close> is a parameter, and it may raise.\<close>

definition response_audio_delta :: "(string \<Rightarrow> error + bytes) \<Rightarrow> conversation \<Rightarrow> event \<Rightarrow>
    ret outcome" where
  "response_audio_delta dec s ev =
     (case e_item_id ev of
        None \<Rightarrow> (s, Inl (KeyError ''item_id''))
      | Some k \<Rightarrow>
          (case ensure_item_exists s k of
             (s1, a) \<Rightarrow>
               (case e_content_index ev of
                  None \<Rightarrow> (s1, Inl (KeyError ''content_index''))
                | Some ci \<Rightarrow>
                    (case e_delta ev of
                       None \<Rightarrow> (s1, Inl (KeyError ''delta''))
                     | Some d \<Rightarrow>
                         (case chain
                                 [pad_step a ci,
                                  part_step a ci
                                    (\<lambda>c. c\<lparr>c_audio := Some (or_empty (c_audio c) @ d)\<rparr>)]
                                 s1 of
                            (s2, Some e) \<Rightarrow> (s2, Inl e)
                          | (s2, None) \<Rightarrow>
                              (case dec d of
                                 Inl e \<Rightarrow> (s2, Inl e)
                               | Inr append_values \<Rightarrow>
                                   returning (Some a, Some (DAudio append_values))
                                     (formatted_step a (append_formatted_audio append_values)
                                        s2)))))))"

definition response_text_delta :: "conversation \<Rightarrow> event \<Rightarrow> ret outcome" where
  "response_text_delta s ev =
     (case e_item_id ev of
        None \<Rightarrow> (s, Inl (KeyError ''item_id''))
      | Some k \<Rightarrow>
          (case ensure_item_exists s k of
             (s1, a) \<Rightarrow>
               (case e_content_index ev of
                  None \<Rightarrow> (s1, Inl (KeyError ''content_index''))
                | Some ci \<Rightarrow>
                    (case e_delta ev of
                       None \<Rightarrow> (s1, Inl (KeyError ''delta''))
                     | Some d \<Rightarrow>
                         returning (Some a, Some (DText d))
                           (chain
                              [pad_step a ci,
                               part_step a ci (\<lambda>c. c\<lparr>c_text := Some (or_empty (c_text c) @ d)\<rparr>),
                               formatted_step a (append_formatted_text d)]
                              s1)))))"

definition append_tool_arguments :: "string \<Rightarrow> formatted \<Rightarrow> error + formatted" where
  "append_tool_arguments d f =
     (let t = (case f_tool f of
                 None \<Rightarrow> \<lparr>t_type = None, t_name = None, t_call_id = None, t_arguments = Some []\<rparr>
               | Some t \<Rightarrow> t)
      in case t_arguments t of
           None \<Rightarrow> Inl (KeyError ''arguments'')
         | Some args \<Rightarrow> Inr (f\<lparr>f_tool := Some (t\<lparr>t_arguments := Some (args @ d)\<rparr>)\<rparr>))"

definition tool_init_step :: "nat \<Rightarrow> conversation \<Rightarrow> conversation \<times> error option" where
  \<comment> \<open>the two \<^verbatim>\<open>if ... not in ...\<close> statements, which stay done when the append raises\<close>
  "tool_init_step a s =
     (upd_item a
        (\<lambda>i. let f = (case i_formatted i of None \<Rightarrow> no_formatted | Some f \<Rightarrow> f)
             in i\<lparr>i_formatted := Some
                  (case f_tool f of
                     None \<Rightarrow> f\<lparr>f_tool := Some \<lparr>t_type = None, t_name = None, t_call_id = None,
                                t_arguments = Some []\<rparr>\<rparr>
                   | Some t \<Rightarrow> f)\<rparr>) s, None)"

definition response_function_call_arguments_delta :: "conversation \<Rightarrow> event \<Rightarrow> ret outcome" where
  "response_function_call_arguments_delta s ev =
     (case e_item_id ev of
        None \<Rightarrow> (s, Inl (KeyError ''item_id''))
      | Some k \<Rightarrow>
          (case ensure_item_exists s k of
             (s1, a) \<Rightarrow>
               (case e_delta ev of
                  None \<Rightarrow> (s1, Inl (KeyError ''delta''))
                | Some d \<Rightarrow>
                    returning (Some a, Some (DArguments d))
                      (chain
                         [\<lambda>s. (upd_item a
                                 (\<lambda>i. i\<lparr>i_arguments := Some (or_empty (i_arguments i) @ d)\<rparr>) s,
                               None),
                          tool_init_step a,
                          formatted_step a (append_tool_arguments d)]
                         s1))))"

subsection \<open>The dispatch table\<close>

text \<open>\<^verbatim>\<open>event_processor(self, event, *args)\<close>: the speech-stopped processor takes the raw input
  buffer as its one extra argument, the others take none; any other arity is a \<open>TypeError\<close>
  of the call itself.\<close>

definition no_args :: "bytes list \<Rightarrow> conversation \<Rightarrow> ret outcome \<Rightarrow> ret outcome" where
  "no_args args s r = (if args = [] then r else (s, Inl (TypeError ''positional arguments'')))"

definition process_event :: "(string \<Rightarrow> error + bytes) \<Rightarrow> conversation \<Rightarrow> event \<Rightarrow> bytes list \<Rightarrow>
    ret outcome" where
  "process_event dec s ev args =
     (if e_event_id ev = None then (s, Inl (ValueError ''Missing event_id on event''))
      else
        (case e_type ev of
           None \<Rightarrow> (s, Inl (ValueError ''Missing type on event''))
         | Some ty \<Rightarrow>
             if ty = ''conversation.item.created'' then
               no_args args s (conversation_item_created s ev)
             else if ty = ''conversation.item.truncated'' then
               no_args args s (conversation_item_truncated s ev)
             else if ty = ''conversation.item.deleted'' then
               no_args args s (conversation_item_deleted s ev)
             else if ty = ''conversation.item.input_audio_transcription.completed'' then
               no_args args s (conversation_item_input_audio_transcription_completed s ev)
             else if ty = ''input_audio_buffer.speech_started'' then
               no_args args s (input_audio_buffer_speech_started s ev)
             else if ty = ''input_audio_buffer.speech_stopped'' then
               (case args of
                  [input_audio_buffer] \<Rightarrow> input_audio_buffer_speech_stopped s ev input_audio_buffer
                | _ \<Rightarrow> (s, Inl (TypeError ''positional arguments'')))
             else if ty = ''response.created'' then
               no_args args s (response_created s ev)
             else if ty = ''response.output_item.added'' then
               no_args args s (response_output_item_added s ev)
             else if ty = ''response.output_item.done'' then
               no_args args s (response_output_item_done s ev)
             else if ty = ''response.content_part.added'' then
               no_args args s (response_content_part_added s ev)
             else if ty = ''response.audio_transcript.delta'' then
               no_args args s (response_audio_transcript_delta s ev)
             else if ty = ''response.audio.delta'' then
               no_args args s (response_audio_delta dec s ev)
             else if ty = ''response.text.delta'' then
               no_args args s (response_text_delta s ev)
             else if ty = ''response.function_call_arguments.delta'' then
               no_args args s (response_function_call_arguments_delta s ev)
             else (s, Inl (ValueError ''Missing conversation event processor''))))"

text \<open>A caller that feeds the engine one event after the other and stops at the first
  exception; \<open>run_events\<close> collects what the processors returned.\<close>

fun run_events :: "(string \<Rightarrow> error + bytes) \<Rightarrow> conversation \<Rightarrow> (event \<times> bytes list) list \<Rightarrow>
    conversation \<times> (error + ret list)" where
  "run_events dec s [] = (s, Inr [])"
| "run_events dec s ((ev, args) # evs) =
     (case process_event dec s ev args of
        (s', Inl e) \<Rightarrow> (s', Inl e)
      | (s', Inr r) \<Rightarrow>
          (case run_events dec s' evs of
             (s'', Inl e) \<Rightarrow> (s'', Inl e)
           | (s'', Inr rs) \<Rightarrow> (s'', Inr (r # rs))))"

subsection \<open>Concrete events\<close>

definition empty_event :: event where
  "empty_event = \<lparr>e_event_id = None, e_type = None, e_item = None, e_item_id = None,
     e_content_index = None, e_delta = None, e_transcript = None, e_audio_start_ms = None,
     e_audio_end_ms = None, e_response = None, e_response_id = None, e_part = None\<rparr>"

definition speech_started_event :: "string \<Rightarrow> int \<Rightarrow> event" where
  "speech_started_event k ms = empty_event\<lparr>e_event_id := Some ''evt_1'',
     e_type := Some ''input_audio_buffer.speech_started'', e_item_id := Some k,
     e_audio_start_ms := Some ms\<rparr>"

definition speech_stopped_event :: "string \<Rightarrow> int \<Rightarrow> event" where
  "speech_stopped_event k ms = empty_event\<lparr>e_event_id := Some ''evt_2'',
     e_type := Some ''input_audio_buffer.speech_stopped'', e_item_id := Some k,
     e_audio_end_ms := Some ms\<rparr>"

definition item_created_event :: "item \<Rightarrow> event" where
  "item_created_event it = empty_event\<lparr>e_event_id := Some ''evt_3'',
     e_type := Some ''conversation.item.created'', e_item := Some it\<rparr>"

definition user_message :: "string \<Rightarrow> item" where
  "user_message k = empty_item\<lparr>i_id := Some k, i_type := Some ''message'',
     i_role := Some ''user'', i_content := Some []\<rparr>"

definition assistant_message :: "string \<Rightarrow> content_part list \<Rightarrow> item" where
  "assistant_message k cs = empty_item\<lparr>i_id := Some k, i_type := Some ''message'',
     i_role := Some ''assistant'', i_content := Some cs\<rparr>"

definition text_delta_event :: "string \<Rightarrow> int \<Rightarrow> string \<Rightarrow> event" where
  "text_delta_event k ci d = empty_event\<lparr>e_event_id := Some ''evt_4'',
     e_type := Some ''response.text.delta'', e_item_id := Some k, e_content_index := Some ci,
     e_delta := Some d\<rparr>"

text \<open>The formatted audio of the item tracked under an id, when there is one.\<close>

definition formatted_audio_of :: "conversation \<Rightarrow> string \<Rightarrow> bytes option" where
  "formatted_audio_of s k =
     (case item_lookup s k of
        None \<Rightarrow> None
      | Some a \<Rightarrow> (case i_formatted (heap s a) of None \<Rightarrow> None | Some f \<Rightarrow> f_audio f))"

subsection \<open>Consistency of the item store\<close>

text \<open>The ordered list and the lookup table describe the same items: the ids of the listed
  items are the keys of the table, no id is listed twice, and the table maps each id to the
  very object that is listed under it. Listed objects are allocated.\<close>

definition consistent :: "conversation \<Rightarrow> bool" where
  "consistent s \<longleftrightarrow>
     (\<forall>a \<in> set (items s). a < next_addr s) \<and>
     (\<lambda>a. i_id (heap s a)) ` set (items s) = Some ` dom (item_lookup s) \<and>
     distinct (map (\<lambda>a. i_id (heap s a)) (items s)) \<and>
     (\<forall>k a. item_lookup s k = Some a \<longrightarrow> a \<in> set (items s) \<and> i_id (heap s a) = Some k)"

text \<open>The same, as a one-to-one correspondence between listed objects and keys.\<close>

definition tracked :: "conversation \<Rightarrow> bool" where
  "tracked s \<longleftrightarrow>
     (\<forall>a \<in> set (items s). a < next_addr s \<and> (\<exists>k. i_id (heap s a) = Some k \<and> item_lookup s k = Some a)) \<and>
     (\<forall>k a. item_lookup s k = Some a \<longrightarrow> a \<in> set (items s) \<and> i_id (heap s a) = Some k) \<and>
     distinct (items s)"

text \<open>A decoder that rejects every input, for runs in which no audio delta is decoded.\<close>

definition no_decoder :: "string \<Rightarrow> error + bytes" where
  "no_decoder d = Inl Base64Error"

text \<open>Frame of a processor that writes to one object only.\<close>



definition unchanged_except :: "nat \<Rightarrow> conversation \<Rightarrow> conversation \<Rightarrow> bool" where
  "unchanged_except a s s' \<longleftrightarrow>
     items s' = items s \<and> item_lookup s' = item_lookup s \<and> next_addr s' = next_addr s \<and>
     (\<forall>b. b \<noteq> a \<longrightarrow> heap s' b = heap s b)"

text \<open>A new engine after one item-created event for the assistant message \<open>a1\<close>.\<close>

definition tracked_a1 :: conversation where
  "tracked_a1 = fst (process_event no_decoder new_conversation
     (item_created_event (assistant_message ''a1'' [])) [])"



subsection \<open>Reading the formatted projection\<close>









section \<open>The event bus (event_handler.py)\<close>

text \<open>A registered callback is a Python callable, compared by identity when it is removed.
  \<open>Resolve n\<close> is the closure that \<^verbatim>\<open>wait_for_next\<close> creates over its future number \<open>n\<close>;
  \<open>Handler n err\<close> is any other callable, number \<open>n\<close>, which returns or raises \<open>err\<close>.\<close>

datatype callback =
    Resolve nat
  | Handler nat "error option"

datatype 'e future =
    Pending
  | Done 'e
  | Cancelled

text \<open>What can be observed from outside, in the order it happens: a call of \<^verbatim>\<open>dispatch\<close>,
  and the creation of the task that writes an envelope to the socket.\<close>

datatype 'e effect =
    Dispatch string 'e
  | Transmit 'e

record 'e bus =
  event_handlers :: "string \<rightharpoonup> callback list"
  next_event_handlers :: "string \<rightharpoonup> callback list"
  futures :: "nat \<Rightarrow> 'e future"
  next_future :: nat
  trace :: "'e effect list"

definition handlers_of :: "(string \<rightharpoonup> callback list) \<Rightarrow> string \<Rightarrow> callback list" where
  \<comment> \<open>\<^verbatim>\<open>d.get(event_name, [])\<close>\<close>
  "handlers_of m event_name = (case m event_name of None \<Rightarrow> [] | Some hs \<Rightarrow> hs)"

definition clear_event_handlers :: "('e, 'z) bus_scheme \<Rightarrow> ('e, 'z) bus_scheme" where
  "clear_event_handlers b = b\<lparr>event_handlers := Map.empty, next_event_handlers := Map.empty\<rparr>"

definition on :: "('e, 'z) bus_scheme \<Rightarrow> string \<Rightarrow> callback \<Rightarrow> ('e, 'z) bus_scheme" where
  "on b event_name cb =
     b\<lparr>event_handlers := (event_handlers b)
         (event_name \<mapsto> handlers_of (event_handlers b) event_name @ [cb])\<rparr>"

definition on_next :: "('e, 'z) bus_scheme \<Rightarrow> string \<Rightarrow> callback \<Rightarrow> ('e, 'z) bus_scheme" where
  "on_next b event_name cb =
     b\<lparr>next_event_handlers := (next_event_handlers b)
         (event_name \<mapsto> handlers_of (next_event_handlers b) event_name @ [cb])\<rparr>"

definition off :: "('e, 'z) bus_scheme \<Rightarrow> string \<Rightarrow> callback option \<Rightarrow>
    ('e, 'z) bus_scheme \<times> (error + bool)" where
  "off b event_name callback =
     (case callback of
        Some cb \<Rightarrow>
          if cb \<in> set (handlers_of (event_handlers b) event_name) then
            (b\<lparr>event_handlers := (event_handlers b)
                (event_name \<mapsto> remove1 cb (handlers_of (event_handlers b) event_name))\<rparr>,
             Inr True)
          else (b, Inl (ValueError ''Could not turn off specified event listener''))
      | None \<Rightarrow> (b\<lparr>event_handlers := (event_handlers b)(event_name := None)\<rparr>, Inr True))"

text \<open>With a callback, \<^verbatim>\<open>off_next\<close> removes it from the list stored under the topic; when the
  topic has no list, the default \<^verbatim>\<open>[]\<close> does not hold the callback and
  \<^verbatim>\<open>list.remove\<close> raises.\<close>

definition off_next :: "('e, 'z) bus_scheme \<Rightarrow> string \<Rightarrow> callback option \<Rightarrow>
    ('e, 'z) bus_scheme \<times> (error + bool)" where
  "off_next b event_name callback =
     (case callback of
        Some cb \<Rightarrow>
          if cb \<in> set (handlers_of (next_event_handlers b) event_name) then
            (b\<lparr>next_event_handlers := (next_event_handlers b)
                (event_name \<mapsto> remove1 cb (handlers_of (next_event_handlers b) event_name))\<rparr>,
             Inr True)
          else (b, Inl (ValueError ''Could not turn off specified next event listener''))
      | None \<Rightarrow>
          (b\<lparr>next_event_handlers := (next_event_handlers b)(event_name := None)\<rparr>, Inr True))"

text \<open>Handlers run in order; the first one that raises ends the dispatch.\<close>

fun call_handlers :: "callback list \<Rightarrow> 'e \<Rightarrow> ('e, 'z) bus_scheme \<Rightarrow>
    ('e, 'z) bus_scheme \<times> error option" where
  "call_handlers [] ev b = (b, None)"
| "call_handlers (Resolve n # hs) ev b =
     call_handlers hs ev
       (if futures b n = Pending then b\<lparr>futures := (futures b)(n := Done ev)\<rparr> else b)"
| "call_handlers (Handler n err # hs) ev b =
     (case err of Some e \<Rightarrow> (b, Some e) | None \<Rightarrow> call_handlers hs ev b)"

definition dispatch :: "('e, 'z) bus_scheme \<Rightarrow> string \<Rightarrow> 'e \<Rightarrow>
    ('e, 'z) bus_scheme \<times> error option" where
  "dispatch b event_name ev =
     (let b0 = b\<lparr>trace := trace b @ [Dispatch event_name ev]\<rparr>
      in case call_handlers (handlers_of (event_handlers b0) event_name) ev b0 of
           (b1, Some e) \<Rightarrow> (b1, Some e)
         | (b1, None) \<Rightarrow>
             call_handlers (handlers_of (next_event_handlers b1) event_name) ev
               (b1\<lparr>next_event_handlers := (next_event_handlers b1)(event_name := None)\<rparr>))"

text \<open>\<^verbatim>\<open>wait_for_next\<close> is a coroutine. It runs up to the \<^verbatim>\<open>await\<close>, where it has created its
  future and registered its callback; other code runs while it is suspended (a dispatch that
  resolves the future, or the timer of \<^verbatim>\<open>asyncio.wait_for\<close> that cancels it); and it is
  resumed once the future is done or cancelled, with the \<^verbatim>\<open>finally\<close> clause run last. A
  future that is still pending leaves the coroutine suspended (\<open>None\<close>).\<close>

definition wait_for_next_begin :: "('e, 'z) bus_scheme \<Rightarrow> string \<Rightarrow> ('e, 'z) bus_scheme \<times> nat" where
  "wait_for_next_begin b event_name =
     (let n = next_future b
      in (on_next (b\<lparr>futures := (futures b)(n := Pending), next_future := Suc n\<rparr>)
            event_name (Resolve n), n))"

definition timeout_elapses :: "('e, 'z) bus_scheme \<Rightarrow> nat \<Rightarrow> ('e, 'z) bus_scheme" where
  "timeout_elapses b n =
     (if futures b n = Pending then b\<lparr>futures := (futures b)(n := Cancelled)\<rparr> else b)"

definition wait_for_next_finally :: "('e, 'z) bus_scheme \<Rightarrow> string \<Rightarrow> nat \<Rightarrow> 'e option \<Rightarrow>
    ('e, 'z) bus_scheme \<times> (error + 'e option)" where
  \<comment> \<open>an exception raised in the \<^verbatim>\<open>finally\<close> clause replaces the value being returned\<close>
  "wait_for_next_finally b event_name n r =
     (case off_next b event_name (Some (Resolve n)) of
        (b', Inl e) \<Rightarrow> (b', Inl e)
      | (b', Inr ok) \<Rightarrow> (b', Inr r))"

definition wait_for_next_resume :: "('e, 'z) bus_scheme \<Rightarrow> string \<Rightarrow> nat \<Rightarrow>
    (('e, 'z) bus_scheme \<times> (error + 'e option)) option" where
  "wait_for_next_resume b event_name n =
     (case futures b n of
        Pending \<Rightarrow> None
      | Done ev \<Rightarrow> Some (wait_for_next_finally b event_name n (Some ev))
      | Cancelled \<Rightarrow> Some (wait_for_next_finally b event_name n None))"

definition new_bus :: "'e bus" where
  "new_bus = \<lparr>event_handlers = Map.empty, next_event_handlers = Map.empty,
     futures = (\<lambda>_. Cancelled), next_future = 0, trace = []\<rparr>"

section \<open>Verified properties\<close>

subsection \<open>Evaluation\<close>

lemma ms_to_index_eq: "ms_to_index ms = 24 * ms"
proof -
  have "real_of_int (ms * 24000) / 1000 = real_of_int (24 * ms)"
    by simp
  then show ?thesis
    unfolding ms_to_index_def py_int_def default_frequency_def
    by (simp only: floor_of_int ceiling_of_int if_cancel)
qed

lemmas event_defs = speech_started_event_def speech_stopped_event_def item_created_event_def
  user_message_def assistant_message_def text_delta_event_def empty_event_def empty_item_def

lemmas created_defs = conversation_item_created_def alloc_item_def returning_def
  created_link_def created_init_formatted_def created_speech_def created_text_def
  created_transcript_def created_status_def link_item_def upd_item_def upd_formatted_def
  init_formatted_def

lemmas speech_defs = process_event_def no_args_def input_audio_buffer_speech_started_def
  input_audio_buffer_speech_stopped_def new_conversation_def clear_def formatted_audio_of_def

subsection \<open>Speech segments and item creation\<close>

text \<open>C1, as stated, at the raw buffer of 4800 bytes of value 7: in the order speech started,
  item created, speech stopped, the item-created processor raises \<open>KeyError\<close> on the pending
  segment, which has no audio yet; and when the caller goes on after the exception, the
  tracked item's formatted audio stays empty, while the slice \<open>[2400:4800)\<close> has 2400 bytes.\<close>

theorem created_before_stopped_counterexample:
  "snd (run_events no_decoder new_conversation
      [(speech_started_event ''a2'' 100, []), (item_created_event (user_message ''a2''), []),
       (speech_stopped_event ''a2'' 200, [replicate 4800 7])]) = Inl (KeyError ''audio'')
   \<and> formatted_audio_of
        (fst (process_event no_decoder
           (fst (process_event no_decoder
              (fst (process_event no_decoder new_conversation
                 (speech_started_event ''a2'' 100) []))
              (item_created_event (user_message ''a2'')) []))
           (speech_stopped_event ''a2'' 200) [replicate 4800 7])) ''a2'' = Some []
   \<and> py_slice (replicate 4800 (7::byte)) 2400 4800 = replicate 2400 7"
  by (simp add: event_defs created_defs speech_defs py_slice_def py_bound_def Let_def
      ms_to_index_eq)

text \<open>C1, amended: in the order speech started, speech stopped (with a non-empty raw buffer),
  item created as a user message, on a new engine, no processor raises, the item's formatted
  audio is the slice of the raw buffer between the two marks converted at 24,000 Hz, and the
  pending segment is consumed.\<close>

theorem speech_segment_attached_on_creation:
  assumes "buf \<noteq> []"
  shows "snd (run_events dec new_conversation
      [(speech_started_event k b, []), (speech_stopped_event k e, [buf]),
       (item_created_event (user_message k), [])])
      = Inr [(None, None), (None, None), (Some 0, None)]
    \<and> formatted_audio_of (fst (run_events dec new_conversation
      [(speech_started_event k b, []), (speech_stopped_event k e, [buf]),
       (item_created_event (user_message k), [])])) k
      = Some (py_slice buf (ms_to_index b) (ms_to_index e))
    \<and> queued_speech_items (fst (run_events dec new_conversation
      [(speech_started_event k b, []), (speech_stopped_event k e, [buf]),
       (item_created_event (user_message k), [])])) k = None"
  using assms by (simp add: event_defs created_defs speech_defs)

theorem speech_segment_attached_on_creation_witness:
  "replicate 4800 (7::byte) \<noteq> []
   \<and> formatted_audio_of (fst (run_events no_decoder new_conversation
      [(speech_started_event ''a2'' 100, []),
       (speech_stopped_event ''a2'' 200, [replicate 4800 7]),
       (item_created_event (user_message ''a2''), [])])) ''a2''
      = Some (py_slice (replicate 4800 7) 2400 4800)"
  using speech_segment_attached_on_creation
    [of "replicate 4800 (7::byte)" no_decoder "''a2''" 100 200]
  by (simp add: ms_to_index_eq)

subsection \<open>The item list and the lookup table\<close>

lemma consistent_iff: "consistent s \<longleftrightarrow> tracked s"
proof
  assume c: "consistent s"
  let ?f = "\<lambda>a. i_id (heap s a)"
  have inj: "inj_on ?f (set (items s))" and d: "distinct (items s)"
    using c by (auto simp: consistent_def distinct_map)
  have "\<exists>k. ?f a = Some k \<and> item_lookup s k = Some a" if a: "a \<in> set (items s)" for a
  proof -
    from a c have "?f a \<in> Some ` dom (item_lookup s)" unfolding consistent_def by blast
    then obtain k b where k: "?f a = Some k" "item_lookup s k = Some b" by auto
    with c have "b \<in> set (items s)" "?f b = Some k" unfolding consistent_def by blast+
    with inj a k have "a = b" by (simp add: inj_on_def)
    with k show ?thesis by auto
  qed
  with c d show "tracked s" unfolding tracked_def consistent_def by blast
next
  assume t: "tracked s"
  let ?f = "\<lambda>a. i_id (heap s a)"
  have "inj_on ?f (set (items s))"
  proof (rule inj_onI)
    fix a b assume "a \<in> set (items s)" "b \<in> set (items s)" "?f a = ?f b"
    with t show "a = b" unfolding tracked_def by (metis option.inject)
  qed
  with t have "distinct (map ?f (items s))" by (simp add: distinct_map tracked_def)
  moreover have "?f ` set (items s) = Some ` dom (item_lookup s)"
  proof (intro equalityI subsetI)
    fix x assume "x \<in> ?f ` set (items s)"
    with t show "x \<in> Some ` dom (item_lookup s)" unfolding tracked_def by (auto simp: image_iff dom_def) 
  next
    fix x assume "x \<in> Some ` dom (item_lookup s)"
    with t show "x \<in> ?f ` set (items s)" unfolding tracked_def by (force simp: image_iff dom_def)
  qed
  ultimately show "consistent s" using t unfolding tracked_def consistent_def by blast
qed

lemma tracked_upd_item:
  assumes "tracked s" "a \<in> set (items s) \<Longrightarrow> i_id (f (heap s a)) = i_id (heap s a)"
  shows "tracked (upd_item a f s)"
  using assms unfolding tracked_def upd_item_def by (auto)


lemma tracked_cong:
  "heap s' = heap s \<Longrightarrow> next_addr s' = next_addr s \<Longrightarrow> item_lookup s' = item_lookup s \<Longrightarrow>
   items s' = items s \<Longrightarrow> tracked s' = tracked s"
  by (simp add: tracked_def)

lemma tracked_upd_formatted: "tracked s \<Longrightarrow> tracked (upd_formatted a g s)"
  unfolding upd_formatted_def by (rule tracked_upd_item) simp_all

lemma chain_preserves:
  assumes "\<And>f s. f \<in> set fs \<Longrightarrow> P s \<Longrightarrow> P (fst (f s))" "P s"
  shows "P (fst (chain fs s))"
  using assms
proof (induction fs arbitrary: s)
  case Nil
  then show ?case by simp
next
  case (Cons f fs)
  obtain s' e where f: "f s = (s', e)" by (cases "f s")
  with Cons.prems have "P s'" by (metis fst_conv list.set_intros(1))
  with Cons f show ?case by (cases e) (auto)
qed

lemma returning_fst: "fst (returning r m) = fst m"
  by (auto simp: returning_def split: prod.splits option.splits)

lemma tracked_formatted_step: "tracked s \<Longrightarrow> tracked (fst (formatted_step a g s))"
  by (auto simp: formatted_step_def split: option.splits sum.splits intro!: tracked_upd_item)

lemma tracked_pad_step: "tracked s \<Longrightarrow> tracked (fst (pad_step a ci s))"
  by (auto simp: pad_step_def split: option.splits intro!: tracked_upd_item)

lemma tracked_part_step: "tracked s \<Longrightarrow> tracked (fst (part_step a ci g s))"
  by (auto simp: part_step_def split: option.splits intro!: tracked_upd_item)

lemma tracked_content_append_step: "tracked s \<Longrightarrow> tracked (fst (content_append_step a ev s))"
  by (auto simp: content_append_step_def split: option.splits intro!: tracked_upd_item)

lemma tracked_tool_init_step: "tracked s \<Longrightarrow> tracked (fst (tool_init_step a s))"
  by (auto simp: tool_init_step_def Let_def intro!: tracked_upd_item)

lemma tracked_alloc: "tracked s \<Longrightarrow> tracked (fst (alloc_item it s))"
  unfolding tracked_def alloc_item_def by (auto simp: less_Suc_eq)

lemma tracked_link:
  assumes t: "tracked s" and n: "item_lookup s k = None" and a: "a \<notin> set (items s)"
    "a < next_addr s" "i_id (heap s a) = Some k"
  shows "tracked (link_item k a s)"
proof -
  have 1: "b < next_addr s \<and> (\<exists>k'. i_id (heap s b) = Some k' \<and> ((item_lookup s)(k \<mapsto> a)) k' = Some b)"
    if "b \<in> set (items s @ [a])" for b
  proof (cases "b = a")
    case True
    with a show ?thesis by simp
  next
    case False
    with that have b: "b \<in> set (items s)" by simp
    with t obtain k' where k': "i_id (heap s b) = Some k'" "item_lookup s k' = Some b" "b < next_addr s"
      unfolding tracked_def by blast
    with n have "k' \<noteq> k" by auto
    with k' show ?thesis by simp
  qed
  have 2: "b \<in> set (items s @ [a]) \<and> i_id (heap s b) = Some k'"
    if "((item_lookup s)(k \<mapsto> a)) k' = Some b" for k' b
    using that t a unfolding tracked_def by (cases "k' = k") auto
  have 3: "distinct (items s @ [a])" using t a unfolding tracked_def by simp
  show ?thesis unfolding tracked_def link_item_def using 1 2 3 by simp
qed

lemma tracked_id:
  "tracked s \<Longrightarrow> item_lookup s k = Some a \<Longrightarrow>
   i_id (heap s a) = Some k \<and> a \<in> set (items s) \<and> a < next_addr s"
  unfolding tracked_def by blast

lemma tracked_truthy:
  "tracked s \<Longrightarrow> item_lookup s k = Some a \<Longrightarrow> item_truthy (heap s a)"
  using tracked_id[of s k a] by (auto simp: item_truthy_def empty_item_def)

lemma ensure_cases:
  assumes "tracked s"
  shows "(\<exists>a. item_lookup s k = Some a \<and> ensure_item_exists s k = (s, a)) \<or>
         (item_lookup s k = None \<and>
          ensure_item_exists s k = (link_item k (next_addr s) (fst (alloc_item (placeholder k) s)), next_addr s))"
  using assms tracked_truthy[OF assms]
  by (auto simp: ensure_item_exists_def alloc_item_def split: option.splits)

lemma tracked_ensure:
  assumes "tracked s"
  shows "tracked (fst (ensure_item_exists s k))"
proof -
  from ensure_cases[OF assms, of k] show ?thesis
  proof
    assume "\<exists>a. item_lookup s k = Some a \<and> ensure_item_exists s k = (s, a)"
    with assms show ?thesis by auto
  next
    assume n: "item_lookup s k = None \<and>
          ensure_item_exists s k = (link_item k (next_addr s) (fst (alloc_item (placeholder k) s)), next_addr s)"
    let ?s0 = "fst (alloc_item (placeholder k) s)"
    have "tracked ?s0" using assms by (rule tracked_alloc)
    moreover have "item_lookup ?s0 k = None" using n by (simp add: alloc_item_def)
    moreover have "next_addr s \<notin> set (items ?s0)" using assms by (auto simp: alloc_item_def tracked_def)
    moreover have "next_addr s < next_addr ?s0" by (simp add: alloc_item_def)
    moreover have "i_id (heap ?s0 (next_addr s)) = Some k" by (simp add: alloc_item_def placeholder_def)
    ultimately have "tracked (link_item k (next_addr s) ?s0)" by (rule tracked_link)
    with n show ?thesis by simp
  qed
qed

lemma ensure_lookup:
  assumes "tracked s" "ensure_item_exists s k = (s1, a)"
  shows "item_lookup s1 k = Some a"
  using ensure_cases[OF assms(1), of k] assms(2) by (auto simp: link_item_def alloc_item_def)


lemma tracked_queues [simp]:
  "tracked (s\<lparr>queued_speech_items := q1\<rparr>) = tracked s"
  "tracked (s\<lparr>queued_transcript_items := q2\<rparr>) = tracked s"
  "tracked (s\<lparr>queued_input_audio := q3\<rparr>) = tracked s"
  "tracked (s\<lparr>rheap := h\<rparr>) = tracked s"
  "tracked (s\<lparr>rnext := n\<rparr>) = tracked s"
  "tracked (s\<lparr>response_lookup := l\<rparr>) = tracked s"
  "tracked (s\<lparr>responses := rs\<rparr>) = tracked s"
  by (simp_all add: tracked_def)

lemma tracked_created_init_formatted: "tracked s \<Longrightarrow> tracked (fst (created_init_formatted a s))"
  by (auto simp: created_init_formatted_def intro!: tracked_upd_item)

lemma tracked_created_speech: "tracked s \<Longrightarrow> tracked (fst (created_speech k a s))"
  by (auto simp: created_speech_def split: option.splits intro!: tracked_upd_formatted)

lemma tracked_append_texts: "tracked s \<Longrightarrow> tracked (fst (append_texts a cs s))"
  by (induction cs arbitrary: s) (auto split: option.splits intro!: tracked_upd_formatted)

lemma tracked_created_text: "tracked s \<Longrightarrow> tracked (fst (created_text a s))"
  by (auto simp: created_text_def split: option.splits sum.splits intro!: tracked_append_texts)

lemma tracked_created_transcript: "tracked s \<Longrightarrow> tracked (fst (created_transcript k a s))"
  by (auto simp: created_transcript_def split: option.splits intro!: tracked_upd_formatted)

lemma tracked_upd_item_eq:
  assumes "\<And>i. i_id (f i) = i_id i"
  shows "tracked (upd_item a f s) \<longleftrightarrow> tracked s"
proof -
  have h: "i_id (heap (upd_item a f s) b) = i_id (heap s b)" for b
    using assms by (simp add: upd_item_def)
  have "items (upd_item a f s) = items s" "item_lookup (upd_item a f s) = item_lookup s"
    "next_addr (upd_item a f s) = next_addr s"
    by (simp_all add: upd_item_def)
  then show ?thesis
    unfolding tracked_def by (simp only: h)
qed

lemma tracked_upd_formatted_eq: "tracked (upd_formatted a g s) \<longleftrightarrow> tracked s"
  unfolding upd_formatted_def by (rule tracked_upd_item_eq) simp

lemma tracked_created_status: "tracked s \<Longrightarrow> tracked (fst (created_status a s))"
  unfolding created_status_def Let_def
  by (simp add: tracked_upd_item_eq tracked_upd_formatted_eq split: option.split)

lemma tracked_created_link:
  assumes "tracked s" "a \<notin> set (items s)" "a < next_addr s" "i_id (heap s a) = Some k"
  shows "tracked (fst (created_link k a s))"
  using assms by (auto simp: created_link_def intro!: tracked_link)

lemmas tracked_chain = chain_preserves[where P = tracked, rotated]

lemmas tracked_steps = tracked_formatted_step tracked_pad_step tracked_part_step
  tracked_content_append_step tracked_tool_init_step tracked_created_init_formatted
  tracked_created_speech tracked_created_text tracked_created_transcript tracked_created_status
  tracked_upd_item tracked_upd_formatted

lemma tracked_created:
  assumes "tracked s"
  shows "tracked (fst (conversation_item_created s ev))"
proof (cases "e_item ev")
  case None
  with assms show ?thesis by (simp add: conversation_item_created_def)
next
  case (Some it)
  let ?a = "next_addr s"
  let ?s0 = "fst (alloc_item it s)"
  have al: "snd (alloc_item it s) = ?a" by (simp add: alloc_item_def)
  have t0: "tracked ?s0" using assms by (rule tracked_alloc)
  show ?thesis
  proof (cases "i_id it")
    case None
    with Some al t0 show ?thesis by (simp add: conversation_item_created_def case_prod_beta)
  next
    case (Some k)
    have "tracked (fst (created_link k ?a ?s0))"
    proof (rule tracked_created_link[OF t0])
      show "?a \<notin> set (items ?s0)" using assms by (auto simp: alloc_item_def tracked_def)
      show "?a < next_addr ?s0" by (simp add: alloc_item_def)
      show "i_id (heap ?s0 ?a) = Some k" using Some by (simp add: alloc_item_def)
    qed
    then have "tracked (fst (chain [created_init_formatted ?a, created_speech k ?a,
        created_text ?a, created_transcript k ?a, created_status ?a] (fst (created_link k ?a ?s0))))"
      by (rule tracked_chain) (auto intro: tracked_steps)
    moreover have "snd (created_link k ?a ?s0) = None" by (simp add: created_link_def)
    ultimately have "tracked (fst (chain [created_link k ?a, created_init_formatted ?a,
        created_speech k ?a, created_text ?a, created_transcript k ?a, created_status ?a] ?s0))"
      by (cases "created_link k ?a ?s0") simp
    with \<open>e_item ev = Some it\<close> Some al show ?thesis
      by (simp add: conversation_item_created_def returning_fst case_prod_beta del: chain.simps)
  qed
qed




lemma tracked_ensure_chain:
  assumes "tracked s" "\<And>f s. f \<in> set fs \<Longrightarrow> tracked s \<Longrightarrow> tracked (fst (f s))"
  shows "tracked (fst (chain fs (fst (ensure_item_exists s k))))"
proof (rule tracked_chain)
  show "tracked (fst (ensure_item_exists s k))" using assms(1) by (rule tracked_ensure)
qed (rule assms(2))

lemma tracked_truncated: "tracked s \<Longrightarrow> tracked (fst (conversation_item_truncated s ev))"
  unfolding conversation_item_truncated_def
  apply (cases "e_item_id ev"; cases "e_audio_end_ms ev")
     apply (simp_all add: case_prod_beta returning_fst tracked_ensure del: chain.simps)
  apply (rule tracked_ensure_chain, assumption)
  apply (auto intro: tracked_formatted_step)
  done


lemma tracked_transcription:
  "tracked s \<Longrightarrow> tracked (fst (conversation_item_input_audio_transcription_completed s ev))"
  unfolding conversation_item_input_audio_transcription_completed_def
  apply (cases "e_item_id ev"; cases "e_content_index ev"; cases "e_transcript ev")
         apply (simp_all add: case_prod_beta returning_fst del: chain.simps split del: if_split)
  apply (rule tracked_ensure_chain, assumption)
  apply (auto intro: tracked_formatted_step tracked_pad_step tracked_part_step)
  done

lemma tracked_speech_started: "tracked s \<Longrightarrow> tracked (fst (input_audio_buffer_speech_started s ev))"
  unfolding input_audio_buffer_speech_started_def
  by (cases "e_item_id ev"; cases "e_audio_start_ms ev") simp_all

lemma tracked_speech_stopped:
  "tracked s \<Longrightarrow> tracked (fst (input_audio_buffer_speech_stopped s ev buf))"
  unfolding input_audio_buffer_speech_stopped_def
  by (cases "e_item_id ev"; cases "e_audio_end_ms ev") (simp_all add: Let_def)

lemma tracked_response_created: "tracked s \<Longrightarrow> tracked (fst (response_created s ev))"
  unfolding response_created_def
  by (simp split: option.split)

lemma tracked_output_item_added: "tracked s \<Longrightarrow> tracked (fst (response_output_item_added s ev))"
  unfolding response_output_item_added_def
  by (simp split: option.split)

lemma tracked_content_part_added: "tracked s \<Longrightarrow> tracked (fst (response_content_part_added s ev))"
  unfolding response_content_part_added_def
  by (cases "e_item_id ev")
    (simp_all add: case_prod_beta returning_fst tracked_content_append_step tracked_ensure)

lemma tracked_transcript_delta: "tracked s \<Longrightarrow> tracked (fst (response_audio_transcript_delta s ev))"
  unfolding response_audio_transcript_delta_def
  apply (cases "e_item_id ev"; cases "e_content_index ev"; cases "e_delta ev")
         apply (simp_all add: case_prod_beta returning_fst tracked_ensure del: chain.simps)
  apply (rule tracked_ensure_chain, assumption)
  apply (auto intro: tracked_formatted_step tracked_pad_step tracked_part_step)
  done

lemma tracked_text_delta: "tracked s \<Longrightarrow> tracked (fst (response_text_delta s ev))"
  unfolding response_text_delta_def
  apply (cases "e_item_id ev"; cases "e_content_index ev"; cases "e_delta ev")
         apply (simp_all add: case_prod_beta returning_fst tracked_ensure del: chain.simps)
  apply (rule tracked_ensure_chain, assumption)
  apply (auto intro: tracked_formatted_step tracked_pad_step tracked_part_step)
  done

lemma tracked_arguments_delta:
  "tracked s \<Longrightarrow> tracked (fst (response_function_call_arguments_delta s ev))"
  unfolding response_function_call_arguments_delta_def
  apply (cases "e_item_id ev"; cases "e_delta ev")
     apply (simp_all add: case_prod_beta returning_fst tracked_ensure del: chain.simps)
  apply (rule tracked_ensure_chain, assumption)
  apply (auto intro: tracked_formatted_step tracked_tool_init_step simp: tracked_upd_item_eq)
  done

lemma tracked_audio_delta:
  assumes t: "tracked s"
  shows "tracked (fst (response_audio_delta dec s ev))"
proof (cases "e_item_id ev")
  case None
  with t show ?thesis by (simp add: response_audio_delta_def)
next
  case k: (Some k)
  let ?s1 = "fst (ensure_item_exists s k)"
  let ?a = "snd (ensure_item_exists s k)"
  have t1: "tracked ?s1" using t by (rule tracked_ensure)
  show ?thesis
  proof (cases "e_content_index ev")
    case None
    with t1 k show ?thesis by (simp add: response_audio_delta_def case_prod_beta)
  next
    case ci: (Some ci)
    show ?thesis
    proof (cases "e_delta ev")
      case None
      with t1 k ci show ?thesis by (simp add: response_audio_delta_def case_prod_beta)
    next
      case d: (Some d)
      let ?c = "chain [pad_step ?a ci,
          part_step ?a ci (\<lambda>c. c\<lparr>c_audio := Some (or_empty (c_audio c) @ d)\<rparr>)] ?s1"
      have t2: "tracked (fst ?c)"
        by (rule tracked_ensure_chain[OF t]) (auto intro: tracked_pad_step tracked_part_step)
      obtain s2 e where c: "?c = (s2, e)" by (cases ?c)
      with t2 have t2': "tracked s2" by simp
      have "fst (response_audio_delta dec s ev) = s2 \<or>
            fst (response_audio_delta dec s ev) =
              fst (formatted_step ?a (append_formatted_audio (projr (dec d))) s2)"
        using k ci d c unfolding response_audio_delta_def
        by (simp add: case_prod_beta returning_fst del: chain.simps split: option.split sum.split)
      with t2' show ?thesis by (auto intro: tracked_formatted_step)
    qed
  qed
qed


lemma tracked_deleted:
  assumes t: "tracked s"
  shows "tracked (fst (conversation_item_deleted s ev))"
proof (cases "e_item_id ev")
  case None
  with t show ?thesis by (simp add: conversation_item_deleted_def)
next
  case (Some item_id)
  show ?thesis
  proof (cases "item_lookup s item_id")
    case None
    with t Some show ?thesis by (simp add: conversation_item_deleted_def)
  next
    case a: (Some a)
    from tracked_id[OF t a] have ida: "i_id (heap s a) = Some item_id" by simp
    have truthy: "item_truthy (heap s a)" using t a by (rule tracked_truthy)
    have ids: "\<not> list_ex (\<lambda>b. i_id (heap s b) = None) (items s)"
      using t unfolding tracked_def list_ex_iff by auto
    let ?s' = "s\<lparr>item_lookup := (item_lookup s)(item_id := None),
      items := filter (\<lambda>b. i_id (heap s b) \<noteq> Some item_id) (items s)\<rparr>"
    have res: "fst (conversation_item_deleted s ev) = ?s'"
      using Some a ida truthy ids by (simp add: conversation_item_deleted_def Let_def)
    have 1: "b < next_addr s \<and>
        (\<exists>k'. i_id (heap s b) = Some k' \<and> ((item_lookup s)(item_id := None)) k' = Some b)"
      if "b \<in> set (filter (\<lambda>b. i_id (heap s b) \<noteq> Some item_id) (items s))" for b
    proof -
      from that have b: "b \<in> set (items s)" "i_id (heap s b) \<noteq> Some item_id" by auto
      with t obtain k' where k': "i_id (heap s b) = Some k'" "item_lookup s k' = Some b"
        "b < next_addr s"
        unfolding tracked_def by blast
      with b have "k' \<noteq> item_id" by auto
      with k' show ?thesis by simp
    qed
    have 2: "b \<in> set (filter (\<lambda>b. i_id (heap s b) \<noteq> Some item_id) (items s)) \<and>
        i_id (heap s b) = Some k'"
      if "((item_lookup s)(item_id := None)) k' = Some b" for k' b
    proof -
      from that have ne: "k' \<noteq> item_id" and l: "item_lookup s k' = Some b"
        by (auto split: if_splits)
      from tracked_id[OF t l] ne show ?thesis by simp
    qed
    have 3: "distinct (filter (\<lambda>b. i_id (heap s b) \<noteq> Some item_id) (items s))"
      using t unfolding tracked_def by simp
    have "tracked ?s'"
      unfolding tracked_def using 1 2 3 by simp
    with res show ?thesis by simp
  qed
qed

lemma tracked_output_item_done:
  assumes t: "tracked s"
  shows "tracked (fst (response_output_item_done s ev))"
proof (cases "e_item ev")
  case None
  with t show ?thesis by (simp add: response_output_item_done_def)
next
  case it: (Some it)
  show ?thesis
  proof (cases "item_truthy it \<and> i_id it \<noteq> None")
    case False
    with t it show ?thesis by (auto simp: response_output_item_done_def)
  next
    case True
    then obtain k where k: "i_id it = Some k" and tr: "item_truthy it" by auto
    obtain s1 a where e: "ensure_item_exists s k = (s1, a)" by (cases "ensure_item_exists s k")
    have t1: "tracked s1" using tracked_ensure[OF t, of k] e by simp
    have "item_lookup s1 k = Some a" using t e by (rule ensure_lookup)
    from tracked_id[OF t1 this] have ida: "i_id (heap s1 a) = Some k" by simp
    let ?s2 = "upd_item a (\<lambda>old. item_update old it) s1"
    have t2: "tracked ?s2"
      using t1 by (rule tracked_upd_item) (simp add: item_update_def or_else_def k ida)
    show ?thesis
    proof (cases "i_status it")
      case None
      with it k tr e t2 show ?thesis by (simp add: response_output_item_done_def Let_def)
    next
      case (Some st)
      with it k tr e t2 show ?thesis
        by (simp add: response_output_item_done_def Let_def tracked_upd_item_eq)
    qed
  qed
qed

lemma tracked_process_event:
  assumes "tracked s"
  shows "tracked (fst (process_event dec s ev args))"
proof -
  have n: "tracked (fst (no_args args s r))" if "tracked (fst r)" for r
    using that assms by (simp add: no_args_def)
  have st: "tracked (fst (case args of [b] \<Rightarrow> input_audio_buffer_speech_stopped s ev b
      | _ \<Rightarrow> (s, Inl (TypeError ''positional arguments''))))"
    using assms by (auto split: list.split intro: tracked_speech_stopped)
  show ?thesis
    unfolding process_event_def
    using assms st
    by (simp split: option.split
        add: n tracked_created tracked_truncated tracked_deleted tracked_transcription
          tracked_speech_started tracked_response_created tracked_output_item_added
          tracked_output_item_done tracked_content_part_added tracked_transcript_delta
          tracked_audio_delta tracked_text_delta tracked_arguments_delta)
qed

lemma tracked_clear: "tracked (clear s)"
  by (simp add: tracked_def clear_def)


text \<open>C10: after \<open>clear\<close>, and after every \<open>process_event\<close> call on a consistent engine
  (whether the call returns or raises), the ids of the listed items are the keys of
  \<open>item_lookup\<close>, each id is listed once, and \<open>item_lookup\<close> maps each id to the object listed
  under it.\<close>

theorem item_store_stays_consistent:
  assumes "consistent s"
  shows "consistent (clear s0) \<and> consistent (fst (process_event dec s ev args))"
  using assms by (simp add: consistent_iff tracked_clear tracked_process_event)

theorem item_store_stays_consistent_witness:
  "consistent new_conversation
   \<and> consistent (clear new_conversation)
   \<and> consistent (fst (process_event no_decoder new_conversation
        (text_delta_event ''a1'' 0 ''hi'') []))"
  using item_store_stays_consistent
    [of new_conversation new_conversation no_decoder "text_delta_event ''a1'' 0 ''hi''" "[]"]
  by (simp add: consistent_def new_conversation_def clear_def)

subsection \<open>Replayed item creation\<close>

lemma unchanged_refl [simp]: "unchanged_except a s s"
  by (simp add: unchanged_except_def)

lemma unchanged_trans:
  "unchanged_except a s s1 \<Longrightarrow> unchanged_except a s1 s2 \<Longrightarrow> unchanged_except a s s2"
  by (simp add: unchanged_except_def)

lemma unchanged_upd_item [simp]: "unchanged_except a s (upd_item a f s)"
  by (simp add: unchanged_except_def upd_item_def)

lemma unchanged_upd_formatted [simp]: "unchanged_except a s (upd_formatted a g s)"
  by (simp add: upd_formatted_def)

lemma unchanged_queues [simp]:
  "unchanged_except a s (s'\<lparr>queued_speech_items := q1\<rparr>) = unchanged_except a s s'"
  "unchanged_except a s (s'\<lparr>queued_transcript_items := q2\<rparr>) = unchanged_except a s s'"
  "unchanged_except a s (s'\<lparr>queued_input_audio := q3\<rparr>) = unchanged_except a s s'"
  by (simp_all add: unchanged_except_def)

lemma chain_unchanged:
  assumes "\<And>f s. f \<in> set fs \<Longrightarrow> unchanged_except a s (fst (f s))"
  shows "unchanged_except a s (fst (chain fs s))"
  using assms
proof (induction fs arbitrary: s)
  case Nil
  then show ?case by simp
next
  case (Cons f fs)
  obtain s1 e where f: "f s = (s1, e)" by (cases "f s")
  have 1: "unchanged_except a s s1" using Cons.prems[of f s] f by simp
  have 2: "unchanged_except a s1 (fst (chain fs s1))" using Cons by simp
  show ?case using f 1 2 by (cases e) (auto intro: unchanged_trans)
qed

lemma unchanged_created_init_formatted: "unchanged_except a s (fst (created_init_formatted a s))"
  by (simp add: created_init_formatted_def)

lemma unchanged_created_speech: "unchanged_except a s (fst (created_speech k a s))"
  by (simp add: created_speech_def split: option.split)

lemma unchanged_append_texts: "unchanged_except a s (fst (append_texts a cs s))"
proof (induction cs arbitrary: s)
  case Nil
  then show ?case by simp
next
  case (Cons c cs)
  show ?case
  proof (cases "c_text c")
    case None
    then show ?thesis by simp
  next
    case (Some t)
    let ?s1 = "upd_formatted a (\<lambda>f. f\<lparr>f_text := map_option (\<lambda>x. x @ t) (f_text f)\<rparr>) s"
    have "unchanged_except a s ?s1"
      by simp
    moreover have "unchanged_except a ?s1 (fst (append_texts a cs ?s1))"
      by (rule Cons.IH)
    ultimately have "unchanged_except a s (fst (append_texts a cs ?s1))"
      by (rule unchanged_trans)
    with Some show ?thesis by simp
  qed
qed

lemma unchanged_created_text: "unchanged_except a s (fst (created_text a s))"
  by (simp add: created_text_def unchanged_append_texts split: option.split sum.split)

lemma unchanged_created_transcript: "unchanged_except a s (fst (created_transcript k a s))"
  by (simp add: created_transcript_def split: option.split)

lemma unchanged_created_status: "unchanged_except a s (fst (created_status a s))"
proof -
  have u: "unchanged_except a s (upd_item a f (upd_formatted a g s))" for f g
    by (simp add: unchanged_except_def upd_item_def upd_formatted_def)
  have v: "unchanged_except a s (upd_formatted a g (upd_item a f s))" for f g
    by (simp add: unchanged_except_def upd_item_def upd_formatted_def)
  show ?thesis
    unfolding created_status_def Let_def by (simp add: u v split: option.split)
qed

lemma created_replay_frame:
  assumes "item_lookup s k = Some a0" "e_item ev = Some it" "i_id it = Some k"
  shows "unchanged_except (next_addr s) (fst (alloc_item it s)) (fst (conversation_item_created s ev))"
proof -
  let ?a = "next_addr s"
  let ?s0 = "fst (alloc_item it s)"
  have l: "created_link k ?a ?s0 = (?s0, None)"
    using assms(1) by (simp add: created_link_def alloc_item_def)
  have "unchanged_except ?a ?s0 (fst (chain [created_init_formatted ?a, created_speech k ?a,
        created_text ?a, created_transcript k ?a, created_status ?a] ?s0))"
    by (rule chain_unchanged)
      (auto simp: unchanged_created_init_formatted unchanged_created_speech unchanged_created_text
        unchanged_created_transcript unchanged_created_status)
  then have "unchanged_except ?a ?s0 (fst (chain [created_link k ?a, created_init_formatted ?a,
        created_speech k ?a, created_text ?a, created_transcript k ?a, created_status ?a] ?s0))"
    using l by simp
  moreover have "snd (alloc_item it s) = ?a" by (simp add: alloc_item_def)
  ultimately show ?thesis
    using assms(2,3)
    by (simp add: conversation_item_created_def case_prod_beta returning_fst del: chain.simps)
qed

text \<open>C7: processing a \<^verbatim>\<open>conversation.item.created\<close> event whose item id is already tracked
  leaves the ordered item list as it was, with every id listed once, and leaves the tracked
  item (so also its formatted audio, text and transcript) unchanged, whether the processor
  returns or raises: all its writes go to the copy it made of the event's item.\<close>

theorem created_replay_keeps_tracked_item:
  assumes "consistent s" "item_lookup s k = Some a"
    "e_event_id ev \<noteq> None" "e_type ev = Some ''conversation.item.created''"
    "e_item ev = Some it" "i_id it = Some k"
  shows "items (fst (process_event dec s ev args)) = items s
    \<and> distinct (map (\<lambda>b. i_id (heap (fst (process_event dec s ev args)) b))
         (items (fst (process_event dec s ev args))))
    \<and> item_lookup (fst (process_event dec s ev args)) k = Some a
    \<and> heap (fst (process_event dec s ev args)) a = heap s a"
proof -
  let ?s' = "fst (process_event dec s ev args)"
  have t: "tracked s" using assms(1) by (simp add: consistent_iff)
  from tracked_id[OF t assms(2)] have a: "a < next_addr s" by simp
  have "consistent ?s'" using t by (simp add: consistent_iff tracked_process_event)
  then have d: "distinct (map (\<lambda>b. i_id (heap ?s' b)) (items ?s'))" by (simp add: consistent_def)
  have "?s' = s \<or> ?s' = fst (conversation_item_created s ev)"
    using assms(3,4) by (auto simp: process_event_def no_args_def)
  moreover
  have "unchanged_except (next_addr s) (fst (alloc_item it s)) (fst (conversation_item_created s ev))"
    using assms(2,5,6) by (rule created_replay_frame)
  then have "items (fst (conversation_item_created s ev)) = items s"
    "item_lookup (fst (conversation_item_created s ev)) = item_lookup s"
    "heap (fst (conversation_item_created s ev)) a = heap s a"
    using a by (auto simp: unchanged_except_def alloc_item_def)
  ultimately show ?thesis using d assms(2) by auto
qed

theorem created_replay_keeps_tracked_item_witness:
  "consistent tracked_a1 \<and> item_lookup tracked_a1 ''a1'' = Some 0
   \<and> items (fst (process_event no_decoder tracked_a1
        (item_created_event (assistant_message ''a1'' [])) [])) = [0]
   \<and> heap (fst (process_event no_decoder tracked_a1
        (item_created_event (assistant_message ''a1'' [])) [])) 0 = heap tracked_a1 0"
proof -
  have c: "consistent tracked_a1"
    unfolding tracked_a1_def consistent_iff
    by (rule tracked_process_event) (simp add: tracked_def new_conversation_def clear_def)
  have l: "item_lookup tracked_a1 ''a1'' = Some 0" "items tracked_a1 = [0]"
    by (simp_all add: tracked_a1_def event_defs created_defs speech_defs)
  show ?thesis
    using created_replay_keeps_tracked_item[OF c l(1), of "item_created_event (assistant_message ''a1'' [])"
        "assistant_message ''a1'' []" no_decoder "[]"] c l
    by (simp add: item_created_event_def assistant_message_def empty_event_def empty_item_def)
qed

subsection \<open>Indexed deltas and the content list\<close>




























subsection \<open>Deltas accumulate in arrival order\<close>














subsection \<open>Waiting for the next event\<close>



lemmas bus_defs = wait_for_next_resume_def wait_for_next_finally_def wait_for_next_begin_def
  timeout_elapses_def dispatch_def off_next_def on_next_def handlers_of_def new_bus_def

text \<open>C2 at its failing input: on a new bus, \<^verbatim>\<open>wait_for_next\<close> on a topic followed by a
  dispatch on that topic. The dispatch resolves the future with the event and pops the whole
  one-shot list of the topic, so the \<^verbatim>\<open>off_next\<close> of the \<^verbatim>\<open>finally\<close> clause finds no such
  callback and raises: the call ends with \<open>ValueError\<close> instead of returning the event.\<close>

theorem wait_for_next_raises_after_dispatch:
  "futures (fst (dispatch (fst (wait_for_next_begin (new_bus :: json bus)
        ''conversation.item.appended''))
      ''conversation.item.appended'' (JObj [(''item'', JStr ''a1'')]))) 0
     = Done (JObj [(''item'', JStr ''a1'')])
   \<and> map_option snd (wait_for_next_resume
      (fst (dispatch (fst (wait_for_next_begin (new_bus :: json bus)
          ''conversation.item.appended''))
        ''conversation.item.appended'' (JObj [(''item'', JStr ''a1'')])))
      ''conversation.item.appended'' 0)
     = Some (Inl (ValueError ''Could not turn off specified next event listener''))"
  by (simp add: bus_defs Let_def)

text \<open>The timeout path: the callback is still registered, \<^verbatim>\<open>off_next\<close> removes it, and the call
  returns \<^verbatim>\<open>None\<close>.\<close>

theorem wait_for_next_timeout_returns_none:
  "map_option snd (wait_for_next_resume
      (timeout_elapses (fst (wait_for_next_begin (new_bus :: json bus)
          ''conversation.item.appended'')) 0)
      ''conversation.item.appended'' 0)
     = Some (Inr None)
   \<and> map_option (\<lambda>r. next_event_handlers (fst r) ''conversation.item.appended'')
       (wait_for_next_resume
         (timeout_elapses (fst (wait_for_next_begin (new_bus :: json bus)
            ''conversation.item.appended'')) 0)
         ''conversation.item.appended'' 0)
     = Some (Some [])"
  by (simp add: bus_defs Let_def)

end
